theory Spec2Isabelle
  imports Complex_Main "HOL-Library.Sublist" "HOL-Library.Log_Nat"
begin

section \<open>Python values shared by the modules\<close>

text \<open>
  Exceptions are values. Only subclasses of Python's \<open>Exception\<close> are modelled, so a
  handler \<open>except Exception\<close> catches every \<open>exn\<close>. The string is what \<open>str(e)\<close> gives.
\<close>

datatype exn_class =
    FileNotFoundError
  | CalledProcessError
  | ImportError
  | ZeroDivisionError
  | KeyError
  | TimeoutExpired
  | OSError
  | PlainException

datatype exn = Raised exn_class string

fun str_of_exn :: "exn \<Rightarrow> string" where
  "str_of_exn (Raised c m) = m"

fun class_of_exn :: "exn \<Rightarrow> exn_class" where
  "class_of_exn (Raised c m) = c"

text \<open>
  Strings are lists of 8-bit characters: the model covers Python strings whose code
  points are below 256. \<open>py_isspace\<close> is \<open>str.isspace\<close> on one such character (the same
  set that \<open>str.strip()\<close>, \<open>str.split()\<close> and the regular expression \<open>\s\<close> use).
\<close>

definition py_isspace :: "char \<Rightarrow> bool" where
  "py_isspace c \<longleftrightarrow> c \<in> set [CHR 0x09, CHR 0x0A, CHR 0x0B, CHR 0x0C, CHR 0x0D,
     CHR 0x1C, CHR 0x1D, CHR 0x1E, CHR 0x1F, CHR 0x20, CHR 0x85, CHR 0xA0]"

definition lstrip :: "string \<Rightarrow> string" where
  "lstrip s = dropWhile py_isspace s"

definition rstrip :: "string \<Rightarrow> string" where
  "rstrip s = rev (dropWhile py_isspace (rev s))"

definition strip :: "string \<Rightarrow> string" where
  "strip s = rstrip (lstrip s)"

text \<open>
  Python floats are IEEE 754 binary64 numbers. A finite one is modelled by the real
  number it denotes (\<open>Fin 0\<close> is \<open>0.0\<close>, \<open>NegZero\<close> is \<open>-0.0\<close>); the type has more
  numbers than binary64, and every operation rounds its exact result to binary64, to
  the nearest value and to an even significand on a tie, as the hardware does.
  \<^item> \<open>pow2 k\<close> is \<open>2\<close> to the power \<open>k\<close>;
  \<^item> \<open>binade a\<close> is the \<open>e\<close> with \<open>pow2 e \<le> a < pow2 (e + 1)\<close>, for a positive \<open>a\<close>
    (\<open>bitlen n\<close> is the number of binary digits of \<open>n\<close>);
  \<^item> \<open>round_double x\<close> is the binary64 number nearest to \<open>x\<close>: 53 significant bits,
    the least exponent of the last bit -1074, infinity from \<open>pow2 1024\<close> on.
\<close>

datatype double = Fin real | NegZero | PInf | NInf | NaN

definition pow2 :: "int \<Rightarrow> real" where
  "pow2 k = (if 0 \<le> k then 2 ^ nat k else 1 / 2 ^ nat (- k))"

definition binade :: "real \<Rightarrow> int" where
  "binade a = (if 1 \<le> a then bitlen \<lfloor>a\<rfloor> - 1 else - bitlen (\<lceil>1 / a\<rceil> - 1))"

definition round_half_even :: "real \<Rightarrow> int" where
  "round_half_even n =
     (let f = \<lfloor>n\<rfloor>; r = n - of_int f
      in if r < 1 / 2 then f else if 1 / 2 < r then f + 1 else if even f then f else f + 1)"

definition round_double :: "real \<Rightarrow> double" where
  "round_double x =
     (if x = 0 then Fin 0
      else
        (let a = \<bar>x\<bar>;
             q = max (binade a - 52) (- 1074);
             y = of_int (round_half_even (a / pow2 q)) * pow2 q
         in if pow2 1024 \<le> y then (if 0 < x then PInf else NInf)
            else if y = 0 then (if 0 < x then Fin 0 else NegZero)
            else Fin (if 0 < x then y else - y)))"

text \<open>
  The operations the sources use on floats: \<open>abs(x)\<close>, \<open>x - y\<close>, \<open>x < y\<close> (and \<open>x > y\<close>,
  which is \<open>y < x\<close>) and \<open>x / y\<close>. Every comparison with a NaN is false. The division
  raises \<open>ZeroDivisionError\<close> when the divisor is a zero, whatever the dividend:
  \<open>fdiv\<close> is \<open>None\<close> then.
\<close>

fun negative :: "double \<Rightarrow> bool" where
  "negative (Fin r) = (r < 0)"
| "negative NegZero = True"
| "negative NInf = True"
| "negative d = False"

definition zero_of :: "bool \<Rightarrow> double" where
  "zero_of neg = (if neg then NegZero else Fin 0)"

definition inf_of :: "bool \<Rightarrow> double" where
  "inf_of neg = (if neg then NInf else PInf)"

fun fabs :: "double \<Rightarrow> double" where
  "fabs (Fin r) = Fin \<bar>r\<bar>"
| "fabs NegZero = Fin 0"
| "fabs PInf = PInf"
| "fabs NInf = PInf"
| "fabs NaN = NaN"

fun fsub :: "double \<Rightarrow> double \<Rightarrow> double" where
  "fsub NaN y = NaN"
| "fsub x NaN = NaN"
| "fsub PInf PInf = NaN"
| "fsub NInf NInf = NaN"
| "fsub PInf y = PInf"
| "fsub NInf y = NInf"
| "fsub x PInf = NInf"
| "fsub x NInf = PInf"
| "fsub NegZero NegZero = Fin 0"
| "fsub NegZero (Fin r) = (if r = 0 then NegZero else round_double (- r))"
| "fsub (Fin r) NegZero = round_double r"
| "fsub (Fin r) (Fin r') = round_double (r - r')"

fun flt :: "double \<Rightarrow> double \<Rightarrow> bool" where
  "flt NaN y = False"
| "flt x NaN = False"
| "flt PInf y = False"
| "flt x NInf = False"
| "flt NInf y = True"
| "flt x PInf = True"
| "flt NegZero NegZero = False"
| "flt NegZero (Fin r) = (0 < r)"
| "flt (Fin r) NegZero = (r < 0)"
| "flt (Fin r) (Fin r') = (r < r')"

fun fdiv :: "double \<Rightarrow> double \<Rightarrow> double option" where
  "fdiv x NegZero = None"
| "fdiv x (Fin r') =
     (if r' = 0 then None
      else Some (case x of
        NaN \<Rightarrow> NaN
      | PInf \<Rightarrow> inf_of (r' < 0)
      | NInf \<Rightarrow> inf_of (\<not> r' < 0)
      | NegZero \<Rightarrow> zero_of (\<not> r' < 0)
      | Fin r \<Rightarrow> if r = 0 then zero_of (r' < 0) else round_double (r / r')))"
| "fdiv x NaN = Some NaN"
| "fdiv x PInf =
     Some (case x of NaN \<Rightarrow> NaN | PInf \<Rightarrow> NaN | NInf \<Rightarrow> NaN | d \<Rightarrow> zero_of (negative d))"
| "fdiv x NInf =
     Some (case x of NaN \<Rightarrow> NaN | PInf \<Rightarrow> NaN | NInf \<Rightarrow> NaN | d \<Rightarrow> zero_of (\<not> negative d))"

text \<open>\<open>os.path.join(a, b)\<close> on a POSIX system, for a relative second component.\<close>

definition path_join :: "string \<Rightarrow> string \<Rightarrow> string" where
  "path_join a b = (if a = [] \<or> last a = CHR ''/'' then a @ b else a @ ''/'' @ b)"

section \<open>merge\_av.py: the audio/video merger\<close>

text \<open>
  The three ffmpeg command lines the merger builds. The fixed options are those of the
  source; the constructor arguments are the parts that vary.
  \<^item> \<open>SimpleMerge v a out\<close>: \<open>-i v -i a -c:v copy -c:a aac -map 0:v:0 -map 1:a:0 -shortest
    -avoid_negative_ts make_zero -y out\<close>
  \<^item> \<open>AudioLoop v a t out\<close>: \<open>-i v -stream_loop -1 -i a -c:v copy -c:a aac -map 0:v:0
    -map 1:a:0 -t str(t) -avoid_negative_ts make_zero -y out\<close>
  \<^item> \<open>SpeedAdjust v a f out\<close>: \<open>-i v -i a -filter_complex [0:v]setpts=PTS/f[v] -map [v]
    -map 1:a:0 -c:a aac -avoid_negative_ts make_zero -y out\<close>
\<close>

datatype ffmpeg_cmd =
    SimpleMerge string string string
  | AudioLoop string string double string
  | SpeedAdjust string string double string

text \<open>
  The outcome of \<open>subprocess.run\<close>: the process completed with a return code and a
  standard output, or the call raised (time-out, missing executable).
\<close>

datatype proc = Completed int string | RunRaised exn

text \<open>
  The world outside the program. Every observation of it is indexed by a clock that
  each external call advances, so two probes of one file may answer differently.
  Durations are Python floats, and \<open>py_float\<close> stands for \<open>float(s)\<close>: the float a string
  denotes, which can be a NaN or an infinity, and \<open>None\<close> where \<open>float\<close> raises
  \<open>ValueError\<close>.
\<close>

record av_env =
  temp_dir :: string
  path_exists :: "nat \<Rightarrow> string \<Rightarrow> bool"
  ffprobe_duration :: "nat \<Rightarrow> string \<Rightarrow> proc"
  ffprobe_verify :: "nat \<Rightarrow> string \<Rightarrow> proc"
  run_ffmpeg :: "nat \<Rightarrow> ffmpeg_cmd \<Rightarrow> proc"
  py_float :: "string \<Rightarrow> double option"

record av_state =
  clock :: nat
  launched :: "ffmpeg_cmd list"

definition tick :: "av_state \<Rightarrow> av_state" where
  "tick s = s\<lparr>clock := Suc (clock s)\<rparr>"

definition launch :: "ffmpeg_cmd \<Rightarrow> av_state \<Rightarrow> av_state" where
  "launch c s = s\<lparr>clock := Suc (clock s), launched := launched s @ [c]\<rparr>"

definition get_video_duration :: "av_env \<Rightarrow> string \<Rightarrow> av_state \<Rightarrow> double option \<times> av_state" where
  "get_video_duration E video_file s =
     ((case ffprobe_duration E (clock s) video_file of
         RunRaised e \<Rightarrow> None
       | Completed rc out \<Rightarrow>
           if rc = 0 \<and> strip out \<noteq> [] then py_float E (strip out) else None),
      tick s)"

definition get_audio_duration :: "av_env \<Rightarrow> string \<Rightarrow> av_state \<Rightarrow> double option \<times> av_state" where
  "get_audio_duration E audio_file s =
     ((case ffprobe_duration E (clock s) audio_file of
         RunRaised e \<Rightarrow> None
       | Completed rc out \<Rightarrow>
           if rc = 0 \<and> strip out \<noteq> [] then py_float E (strip out) else None),
      tick s)"

definition verify_video_file :: "av_env \<Rightarrow> string \<Rightarrow> av_state \<Rightarrow> bool \<times> av_state" where
  "verify_video_file E video_file s =
     ((case ffprobe_verify E (clock s) video_file of
         RunRaised e \<Rightarrow> False
       | Completed rc out \<Rightarrow> rc = 0),
      tick s)"

definition simple_merge :: "av_env \<Rightarrow> string \<Rightarrow> string \<Rightarrow> string \<Rightarrow> av_state \<Rightarrow> bool \<times> av_state" where
  "simple_merge E video_file audio_file output_file s =
     (let cmd = SimpleMerge video_file audio_file output_file in
      ((case run_ffmpeg E (clock s) cmd of
          RunRaised e \<Rightarrow> False
        | Completed rc out \<Rightarrow> rc = 0),
       launch cmd s))"

definition merge_with_audio_loop ::
  "av_env \<Rightarrow> string \<Rightarrow> string \<Rightarrow> string \<Rightarrow> double \<Rightarrow> av_state \<Rightarrow> bool \<times> av_state" where
  "merge_with_audio_loop E video_file audio_file output_file target_duration s =
     (let cmd = AudioLoop video_file audio_file target_duration output_file in
      (case run_ffmpeg E (clock s) cmd of
         RunRaised e \<Rightarrow> (False, launch cmd s)
       | Completed rc out \<Rightarrow>
           if rc = 0 then (True, launch cmd s)
           else simple_merge E video_file audio_file output_file (launch cmd s)))"

text \<open>
  The probe inside this method is a second probe of the video. The float division
  \<open>video_duration / target_duration\<close> raises \<open>ZeroDivisionError\<close> when the target is
  a zero; the method's own handler turns that into \<open>False\<close>. The literals \<open>0.5\<close> and
  \<open>2.0\<close> are the floats \<open>Fin (1 / 2)\<close> and \<open>Fin 2\<close>.
\<close>

definition merge_with_video_speed_adjust ::
  "av_env \<Rightarrow> string \<Rightarrow> string \<Rightarrow> string \<Rightarrow> double \<Rightarrow> av_state \<Rightarrow> bool \<times> av_state" where
  "merge_with_video_speed_adjust E video_file audio_file output_file target_duration s =
     (let (video_duration, s1) = get_video_duration E video_file s in
      if video_duration = None then simple_merge E video_file audio_file output_file s1
      else if fdiv (the video_duration) target_duration = None then (False, s1)
      else
        let speed_factor = the (fdiv (the video_duration) target_duration) in
        if flt speed_factor (Fin (1 / 2)) \<or> flt (Fin 2) speed_factor
        then simple_merge E video_file audio_file output_file s1
        else
          let cmd = SpeedAdjust video_file audio_file speed_factor output_file in
          (case run_ffmpeg E (clock s1) cmd of
             RunRaised e \<Rightarrow> (False, launch cmd s1)
           | Completed rc out \<Rightarrow>
               if rc = 0 then (True, launch cmd s1)
               else simple_merge E video_file audio_file output_file (launch cmd s1)))"

definition merge_with_ffmpeg ::
  "av_env \<Rightarrow> string \<Rightarrow> string \<Rightarrow> string \<Rightarrow> av_state \<Rightarrow> bool \<times> av_state" where
  "merge_with_ffmpeg E video_file audio_file output_file s =
     (let (video_duration, s1) = get_video_duration E video_file s;
          (audio_duration, s2) = get_audio_duration E audio_file s1 in
      if video_duration = None \<or> audio_duration = None
      then simple_merge E video_file audio_file output_file s2
      else
        let duration_diff = fabs (fsub (the video_duration) (the audio_duration)) in
        if flt duration_diff (Fin 3) then simple_merge E video_file audio_file output_file s2
        else if flt (the audio_duration) (the video_duration)
        then merge_with_audio_loop E video_file audio_file output_file (the video_duration) s2
        else merge_with_video_speed_adjust E video_file audio_file output_file (the audio_duration) s2)"

text \<open>
  The body of \<open>AudioVideoMerger.merge_audio_video\<close> inside its \<open>try\<close>: \<open>Inl\<close> is an
  exception raised there, \<open>Inr\<close> a returned path.
\<close>

definition merge_audio_video_try ::
  "av_env \<Rightarrow> string \<Rightarrow> string \<Rightarrow> string \<Rightarrow> av_state \<Rightarrow> (exn + string) \<times> av_state" where
  "merge_audio_video_try E video_file audio_file session_id s =
     (if \<not> path_exists E (clock s) video_file
      then (Inl (Raised FileNotFoundError (''Video file not found: '' @ video_file)), tick s)
      else if \<not> path_exists E (clock (tick s)) audio_file
      then (Inr video_file, tick (tick s))
      else
        let output_file = path_join (temp_dir E) (''repo2reel_'' @ session_id @ ''_final.mp4'');
            (success, s1) = merge_with_ffmpeg E video_file audio_file output_file (tick (tick s))
        in
          if \<not> success then (Inr video_file, s1)
          else if \<not> path_exists E (clock s1) output_file then (Inr video_file, tick s1)
          else
            let (valid, s2) = verify_video_file E output_file (tick s1)
            in (Inr (if valid then output_file else video_file), s2))"

text \<open>
  The method: its handler \<open>except Exception\<close> returns the video path. The result type
  keeps an \<open>Inl\<close> for an exception that would leave the method.
\<close>

definition merge_audio_video ::
  "av_env \<Rightarrow> string \<Rightarrow> string \<Rightarrow> string \<Rightarrow> av_state \<Rightarrow> (exn + string) \<times> av_state" where
  "merge_audio_video E video_file audio_file session_id s =
     (case merge_audio_video_try E video_file audio_file session_id s of
        (Inl e, s1) \<Rightarrow> (Inr video_file, s1)
      | (Inr path, s1) \<Rightarrow> (Inr path, s1))"

text \<open>
  The module-level function \<open>merge_audio_video\<close>, which the controller calls: it
  builds a merger, calls the method and has the same handler again.
\<close>

definition merge_audio_video_main ::
  "av_env \<Rightarrow> string \<Rightarrow> string \<Rightarrow> string \<Rightarrow> av_state \<Rightarrow> (exn + string) \<times> av_state" where
  "merge_audio_video_main E video_file audio_file session_id s =
     (case merge_audio_video E video_file audio_file session_id s of
        (Inl e, s1) \<Rightarrow> (Inr video_file, s1)
      | (Inr path, s1) \<Rightarrow> (Inr path, s1))"

text \<open>
  Concrete worlds for evaluation: \<open>probe_env dv da\<close> holds the files \<open>v.mp4\<close> and
  \<open>a.wav\<close>, the probe prints \<open>dv\<close> for the video and \<open>da\<close> for the audio, every ffmpeg
  run exits with 0, and \<open>float\<close> is tabulated on the strings used: \<open>float(s)\<close> is the
  binary64 number nearest to the decimal number \<open>s\<close> writes. \<open>no_files_env\<close> is the
  same world without any file.
\<close>

definition float_table :: "string \<Rightarrow> double option" where
  "float_table = map_of
     [(''8.0'', Fin 8), (''12.0'', Fin 12), (''40.0'', Fin 40), (''10.0'', Fin 10),
      (''10.5'', Fin (21 / 2)), (''2.0'', Fin 2),
      (''3.300000'', round_double (33 / 10)), (''0.300000'', round_double (3 / 10)),
      (''nan'', NaN)]"

definition probe_env :: "string \<Rightarrow> string \<Rightarrow> av_env" where
  "probe_env dv da =
     \<lparr>temp_dir = ''/tmp'',
      path_exists = (\<lambda>t p. p = ''v.mp4'' \<or> p = ''a.wav''),
      ffprobe_duration = (\<lambda>t p. Completed 0 (if p = ''v.mp4'' then dv else da)),
      ffprobe_verify = (\<lambda>t p. Completed 0 []),
      run_ffmpeg = (\<lambda>t c. Completed 0 []),
      py_float = float_table\<rparr>"

definition no_files_env :: av_env where
  "no_files_env = (probe_env ''8.0'' ''12.0'')\<lparr>path_exists := (\<lambda>t p. False)\<rparr>"

definition start_state :: av_state where
  "start_state = \<lparr>clock = 0, launched = []\<rparr>"

text \<open>
  \<open>reprobe_env third\<close> is \<open>probe_env ''8.0'' ''12.0''\<close> except that the third probe of a
  run (the one \<open>_merge_with_video_speed_adjust\<close> makes, at clock 2 when the run starts
  with \<open>_merge_with_ffmpeg\<close> at clock 0) has the outcome \<open>third\<close>.
\<close>

definition reprobe_env :: "proc \<Rightarrow> av_env" where
  "reprobe_env third = (probe_env ''8.0'' ''12.0'')\<lparr>ffprobe_duration :=
     (\<lambda>t p. if t = 2 then third else Completed 0 (if p = ''v.mp4'' then ''8.0'' else ''12.0''))\<rparr>"

text \<open>
  The selection rule and the speed-factor rule as the specification words them, on
  the durations as exact numbers of seconds (\<open>None\<close>: the duration could not be probed).
\<close>

datatype strategy = DirectMux | AudioLoopTruncate | VideoTimeScale

definition spec_strategy :: "real option \<Rightarrow> real option \<Rightarrow> strategy" where
  "spec_strategy Dv Da =
     (if Dv = None \<or> Da = None then DirectMux
      else if \<bar>the Dv - the Da\<bar> < 3 then DirectMux
      else if the Dv > the Da then AudioLoopTruncate
      else VideoTimeScale)"

definition spec_speed_factor :: "real \<Rightarrow> real \<Rightarrow> real" where
  "spec_speed_factor Dv Da = Dv / Da"

definition spec_time_scale_applied :: "real \<Rightarrow> real \<Rightarrow> bool" where
  "spec_time_scale_applied Dv Da \<longleftrightarrow>
     1 / 2 \<le> spec_speed_factor Dv Da \<and> spec_speed_factor Dv Da \<le> 2"

section \<open>app.py: the session registry and the background worker\<close>

text \<open>
  One entry of the global dictionary \<open>processing_status\<close>. Python's \<open>None\<close> in the
  fields \<open>error\<close> and \<open>result_file\<close> is \<open>None\<close> here.
\<close>

record session =
  status :: string
  progress :: int
  message :: string
  error :: "string option"
  result_file :: "string option"
  github_url :: string

type_synonym registry = "string \<rightharpoonup> session"

text \<open>
  The collaborators the worker calls, as outcomes (\<open>Inl\<close>: the call raised). The type
  \<open>'a\<close> is the repository analysis.
  \<^item> \<open>analyze url\<close>: the three constructors and \<open>graph_rag.analyze_repository(url)\<close>;
  \<^item> \<open>script a\<close>: \<open>generate_video_script_prompt(a)\<close> and \<open>generate_text(prompt, 800)\<close>;
  \<^item> \<open>audio script sid\<close>: \<open>generate_audio_from_text\<close>;
  \<^item> \<open>video script a sid\<close>: \<open>generate_video_from_script\<close>;
  \<^item> \<open>merge video audio sid\<close>: \<open>merge_audio_video\<close>.
\<close>

record 'a stages =
  analyze :: "string \<Rightarrow> exn + 'a"
  script :: "'a \<Rightarrow> exn + string"
  audio :: "string \<Rightarrow> string \<Rightarrow> exn + string"
  video :: "string \<Rightarrow> 'a \<Rightarrow> string \<Rightarrow> exn + string"
  merge :: "string \<Rightarrow> string \<Rightarrow> string \<Rightarrow> exn + string"

text \<open>
  The entry \<open>process_repository\<close> stores for an accepted URL, before it starts the
  worker thread.
\<close>

definition initial_session :: "string \<Rightarrow> session" where
  "initial_session url =
     \<lparr>status = ''starting'', progress = 0,
      message = ''Initializing repository processing...'',
      error = None, result_file = None, github_url = url\<rparr>"

text \<open>
  \<open>processing_status[session_id].update({...})\<close>. The worker's effect is the list of
  registries it has written, oldest first; a poller reads one of them. A missing key
  raises \<open>KeyError\<close>.
\<close>

definition dict_update ::
  "string \<Rightarrow> (session \<Rightarrow> session) \<Rightarrow> registry list \<Rightarrow> exn + registry list" where
  "dict_update session_id f tr =
     (case (last tr) session_id of
        None \<Rightarrow> Inl (Raised KeyError session_id)
      | Some x \<Rightarrow> Inr (tr @ [(last tr)(session_id \<mapsto> f x)]))"

definition enter_analysis :: "session \<Rightarrow> session" where
  "enter_analysis x = x\<lparr>status := ''analyzing'', progress := 10,
     message := ''Downloading and analyzing repository content...''\<rparr>"

definition enter_script :: "session \<Rightarrow> session" where
  "enter_script x = x\<lparr>progress := 30,
     message := ''Generating video script from repository analysis...''\<rparr>"

definition enter_audio :: "session \<Rightarrow> session" where
  "enter_audio x = x\<lparr>progress := 50,
     message := ''Creating audio narration from script...''\<rparr>"

definition enter_video :: "session \<Rightarrow> session" where
  "enter_video x = x\<lparr>progress := 70,
     message := ''Generating video content and visuals...''\<rparr>"

definition enter_merge :: "session \<Rightarrow> session" where
  "enter_merge x = x\<lparr>progress := 90,
     message := ''Merging audio and video components...''\<rparr>"

definition complete :: "string \<Rightarrow> session \<Rightarrow> session" where
  "complete final_video x = x\<lparr>status := ''completed'', progress := 100,
     message := ''Video generation completed successfully!'',
     result_file := Some final_video\<rparr>"

definition record_error :: "string \<Rightarrow> session \<Rightarrow> session" where
  "record_error error_msg x = x\<lparr>status := ''error'', error := Some error_msg,
     message := ''Error: '' @ error_msg\<rparr>"

text \<open>
  The \<open>try\<close> block of \<open>process_repository_background\<close>: the registries written so far
  and the exception that ended the block, if one did.
\<close>

definition process_repository_background_try ::
  "'a stages \<Rightarrow> string \<Rightarrow> string \<Rightarrow> registry list \<Rightarrow> registry list \<times> exn option" where
  "process_repository_background_try S url session_id tr =
     (case dict_update session_id enter_analysis tr of Inl e \<Rightarrow> (tr, Some e) | Inr tr1 \<Rightarrow>
     (case analyze S url of Inl e \<Rightarrow> (tr1, Some e) | Inr repo_analysis \<Rightarrow>
     (case dict_update session_id enter_script tr1 of Inl e \<Rightarrow> (tr1, Some e) | Inr tr2 \<Rightarrow>
     (case script S repo_analysis of Inl e \<Rightarrow> (tr2, Some e) | Inr video_script \<Rightarrow>
     (case dict_update session_id enter_audio tr2 of Inl e \<Rightarrow> (tr2, Some e) | Inr tr3 \<Rightarrow>
     (case audio S video_script session_id of Inl e \<Rightarrow> (tr3, Some e) | Inr audio_file \<Rightarrow>
     (case dict_update session_id enter_video tr3 of Inl e \<Rightarrow> (tr3, Some e) | Inr tr4 \<Rightarrow>
     (case video S video_script repo_analysis session_id of Inl e \<Rightarrow> (tr4, Some e) | Inr video_file \<Rightarrow>
     (case dict_update session_id enter_merge tr4 of Inl e \<Rightarrow> (tr4, Some e) | Inr tr5 \<Rightarrow>
     (case merge S video_file audio_file session_id of Inl e \<Rightarrow> (tr5, Some e) | Inr final_video \<Rightarrow>
     (case dict_update session_id (complete final_video) tr5 of Inl e \<Rightarrow> (tr5, Some e)
      | Inr tr6 \<Rightarrow> (tr6, None))))))))))))"

text \<open>
  The worker with its handler. The second component is an exception that leaves the
  worker (the handler's own update can raise \<open>KeyError\<close>).
\<close>

definition process_repository_background ::
  "'a stages \<Rightarrow> string \<Rightarrow> string \<Rightarrow> registry list \<Rightarrow> registry list \<times> exn option" where
  "process_repository_background S url session_id tr =
     (case process_repository_background_try S url session_id tr of
        (tr1, None) \<Rightarrow> (tr1, None)
      | (tr1, Some e) \<Rightarrow>
          (case dict_update session_id (record_error (str_of_exn e)) tr1 of
             Inl e2 \<Rightarrow> (tr1, Some e2)
           | Inr tr2 \<Rightarrow> (tr2, None)))"

text \<open>
  \<open>process_repository\<close> for a URL that passed its checks: it stores the initial entry
  under the fresh session id and starts the worker. The result is every registry a
  poller can read, from the one with the initial entry on.
\<close>

definition process_repository ::
  "'a stages \<Rightarrow> string \<Rightarrow> string \<Rightarrow> registry \<Rightarrow> registry list \<times> exn option" where
  "process_repository S url session_id reg =
     process_repository_background S url session_id [reg(session_id \<mapsto> initial_session url)]"

text \<open>\<open>get_status\<close>: the entry, or the 404 answer for an unknown session id.\<close>

definition get_status :: "registry \<Rightarrow> string \<Rightarrow> session option" where
  "get_status reg session_id = reg session_id"

text \<open>What a poller of \<open>session_id\<close> sees in each registry of a run.\<close>

definition observed :: "string \<Rightarrow> registry list \<Rightarrow> (string \<times> int) list" where
  "observed session_id tr =
     map (\<lambda>reg. case get_status reg session_id of
                  None \<Rightarrow> (''Invalid session ID'', 404)
                | Some x \<Rightarrow> (status x, progress x)) tr"

text \<open>
  A poller that sends several requests reads the registries in the order they were
  written, possibly the same one again: its \<open>k\<close>-th request reads registry number
  \<open>idxs ! k\<close> of the run, with \<open>idxs\<close> non-decreasing.
\<close>

definition polls :: "string \<Rightarrow> registry list \<Rightarrow> nat list \<Rightarrow> (string \<times> int) list" where
  "polls session_id tr idxs = map (\<lambda>i. observed session_id tr ! i) idxs"

text \<open>Stages that all succeed, and stages whose video rendering raises.\<close>

definition stages_ok :: "unit stages" where
  "stages_ok = \<lparr>analyze = (\<lambda>u. Inr ()), script = (\<lambda>a. Inr ''Welcome.''),
     audio = (\<lambda>t sid. Inr ''a.wav''), video = (\<lambda>t a sid. Inr ''v.mp4''),
     merge = (\<lambda>v a sid. Inr ''final.mp4'')\<rparr>"

definition stages_bad_video :: "unit stages" where
  "stages_bad_video = stages_ok\<lparr>video := (\<lambda>t a sid. Inl (Raised PlainException ''Could not generate video''))\<rparr>"

text \<open>
  The stage sequence and checkpoints as the specification words them: status names in
  order, each with its fixed progress value.
\<close>

definition spec_stage_checkpoint :: "(string \<times> int) list" where
  "spec_stage_checkpoint =
     [(''created'', 0), (''analyzing'', 10), (''scripting'', 30), (''synthesizing_audio'', 50),
      (''rendering_video'', 70), (''merging'', 90), (''completed'', 100)]"

text \<open>The same table as the worker writes it.\<close>

definition code_stage_checkpoint :: "(string \<times> int) list" where
  "code_stage_checkpoint =
     [(''starting'', 0), (''analyzing'', 10), (''analyzing'', 30), (''analyzing'', 50),
      (''analyzing'', 70), (''analyzing'', 90), (''completed'', 100)]"

section \<open>llm\_utils.py: text generation\<close>

text \<open>
  The environment of an \<open>LLMProcessor\<close>: the five credentials read from the process
  environment (\<open>None\<close> when the variable is not set), and the outcomes of the calls
  that leave the program.
  \<^item> \<open>provider_call name prompt max_length\<close> is the outcome of the method
    \<open>_generate_with_<name>\<close> (\<open>Inl\<close>: it raised);
  \<^item> \<open>transformers_pipeline prompt max_length\<close> is the outcome of importing
    \<open>transformers\<close> and running the \<open>distilgpt2\<close> pipeline, up to
    \<open>result[0]["generated_text"]\<close>;
  \<^item> \<open>template_based_generation prompt\<close> is the method of that name, which returns
    a string on every path (its own handler returns a constant).
\<close>

record llm_env =
  openai_key :: "string option"
  huggingface_key :: "string option"
  together_key :: "string option"
  anthropic_key :: "string option"
  groq_key :: "string option"
  provider_call :: "string \<Rightarrow> string \<Rightarrow> int \<Rightarrow> exn + string"
  transformers_pipeline :: "string \<Rightarrow> int \<Rightarrow> exn + string"
  template_based_generation :: "string \<Rightarrow> string"

text \<open>Python's truth value of an optional string: \<open>None\<close> and \<open>""\<close> are false.\<close>

definition truthy :: "string option \<Rightarrow> bool" where
  "truthy k = (case k of None \<Rightarrow> False | Some s \<Rightarrow> s \<noteq> [])"

definition determine_service :: "llm_env \<Rightarrow> string" where
  "determine_service E =
     (if truthy (groq_key E) then ''groq''
      else if truthy (openai_key E) then ''openai''
      else if truthy (anthropic_key E) then ''anthropic''
      else if truthy (together_key E) then ''together''
      else if truthy (huggingface_key E) then ''huggingface''
      else ''local'')"

text \<open>
  \<open>_generate_with_local\<close>: every exception of the pipeline, \<open>ImportError\<close> included,
  ends in the template generation, so the method returns a string.
\<close>

definition generate_with_local :: "llm_env \<Rightarrow> string \<Rightarrow> int \<Rightarrow> string" where
  "generate_with_local E prompt max_length =
     (case transformers_pipeline E prompt max_length of
        Inl e \<Rightarrow> template_based_generation E prompt
      | Inr generated_text \<Rightarrow>
          if prefix prompt generated_text
          then strip (drop (length prompt) generated_text)
          else generated_text)"

text \<open>
  \<open>generate_text\<close>, for a processor whose field \<open>service\<close> is the second argument. The
  second component of the result lists the generation methods invoked, in order.
\<close>

definition generate_text_try ::
  "llm_env \<Rightarrow> string \<Rightarrow> string \<Rightarrow> int \<Rightarrow> (exn + string) \<times> string list" where
  "generate_text_try E service prompt max_length =
     (if service = ''groq'' then (provider_call E ''groq'' prompt max_length, [''groq''])
      else if service = ''openai'' then (provider_call E ''openai'' prompt max_length, [''openai''])
      else if service = ''anthropic''
      then (provider_call E ''anthropic'' prompt max_length, [''anthropic''])
      else if service = ''together''
      then (provider_call E ''together'' prompt max_length, [''together''])
      else if service = ''huggingface''
      then (provider_call E ''huggingface'' prompt max_length, [''huggingface''])
      else (Inr (generate_with_local E prompt max_length), [''local'']))"

definition generate_text :: "llm_env \<Rightarrow> string \<Rightarrow> string \<Rightarrow> int \<Rightarrow> string \<times> string list" where
  "generate_text E service prompt max_length =
     (case generate_text_try E service prompt max_length of
        (Inr generated, invoked) \<Rightarrow> (generated, invoked)
      | (Inl e, invoked) \<Rightarrow> (generate_with_local E prompt max_length, invoked @ [''local'']))"

text \<open>The providers in the order \<open>_determine_service\<close> asks for their credentials.\<close>

definition provider_order :: "string list" where
  "provider_order = [''groq'', ''openai'', ''anthropic'', ''together'', ''huggingface'']"

definition available :: "llm_env \<Rightarrow> string \<Rightarrow> bool" where
  "available E name =
     (if name = ''groq'' then truthy (groq_key E)
      else if name = ''openai'' then truthy (openai_key E)
      else if name = ''anthropic'' then truthy (anthropic_key E)
      else if name = ''together'' then truthy (together_key E)
      else if name = ''huggingface'' then truthy (huggingface_key E)
      else False)"

text \<open>
  The cascade as the specification words it (section 4.2), for comparison with
  \<open>generate_text\<close>: each provider in order, an unavailable one skipped, the first
  success returned, a failure followed by the next provider, the local fallback last.
\<close>

fun spec_cascade :: "llm_env \<Rightarrow> string list \<Rightarrow> string \<Rightarrow> int \<Rightarrow> string \<times> string list" where
  "spec_cascade E [] prompt max_length = (generate_with_local E prompt max_length, [''local''])"
| "spec_cascade E (p # ps) prompt max_length =
     (if \<not> available E p then spec_cascade E ps prompt max_length
      else
        (case provider_call E p prompt max_length of
           Inr generated \<Rightarrow> (generated, [p])
         | Inl e \<Rightarrow>
             (let (generated, invoked) = spec_cascade E ps prompt max_length
              in (generated, p # invoked))))"

text \<open>
  A concrete environment: credentials for Groq and OpenAI, Groq answers with an error
  status, OpenAI would answer, the \<open>transformers\<close> library is not installed.
\<close>

definition llm_two_keys :: llm_env where
  "llm_two_keys =
     \<lparr>openai_key = Some ''sk-1'', huggingface_key = None, together_key = None,
      anthropic_key = None, groq_key = Some ''gsk-1'',
      provider_call = (\<lambda>name prompt n.
         if name = ''groq'' then Inl (Raised PlainException ''Groq API error: 503'')
         else Inr ''Narration from the provider.''),
      transformers_pipeline = (\<lambda>prompt n. Inl (Raised ImportError ''No module named transformers'')),
      template_based_generation = (\<lambda>prompt. ''Generated content based on repository analysis.'')\<rparr>"

section \<open>Verified properties: the merger\<close>

lemma strip_float_literals:
  "strip ''8.0'' = ''8.0''" "strip ''12.0'' = ''12.0''" "strip ''40.0'' = ''40.0''"
  "strip ''10.0'' = ''10.0''" "strip ''10.5'' = ''10.5''" "strip ''2.0'' = ''2.0''"
  "strip ''3.300000'' = ''3.300000''" "strip ''0.300000'' = ''0.300000''"
  "strip ''nan'' = ''nan''"
  by (simp_all add: strip_def lstrip_def rstrip_def py_isspace_def)

lemma probe_env_video:
  "get_video_duration (probe_env dv da) ''v.mp4'' s =
     ((if strip dv \<noteq> [] then float_table (strip dv) else None), tick s)"
  by (simp add: get_video_duration_def probe_env_def)

lemma probe_env_audio:
  "get_audio_duration (probe_env dv da) ''a.wav'' s =
     ((if strip da \<noteq> [] then float_table (strip da) else None), tick s)"
  by (simp add: get_audio_duration_def probe_env_def)

lemma merge_audio_video_never_raises:
  "\<not> isl (fst (merge_audio_video E v a sid s))"
  by (cases "merge_audio_video_try E v a sid s"; cases "fst (merge_audio_video_try E v a sid s)")
     (auto simp: merge_audio_video_def)

text \<open>
  C1 as stated fails in its first half: with no video file the method does not fail.
  The \<open>FileNotFoundError\<close> it raises is caught by its own handler, which returns the
  video path.
\<close>

theorem merge_missing_video_counterexample:
  "\<not> path_exists no_files_env (clock start_state) ''v.mp4'' \<and>
   \<not> isl (fst (merge_audio_video no_files_env ''v.mp4'' ''a.wav'' ''s1'' start_state)) \<and>
   fst (merge_audio_video no_files_env ''v.mp4'' ''a.wav'' ''s1'' start_state) = Inr ''v.mp4''"
  by (simp add: merge_audio_video_def merge_audio_video_try_def no_files_env_def probe_env_def
      start_state_def tick_def)

text \<open>
  C1 (amended): if the video path does not exist, \<open>merge_audio_video\<close> raises nothing
  and returns the video path unchanged; if the video exists and the audio path does
  not, it returns the video path unchanged as well. In both cases no ffmpeg command
  is launched: the state only counts the existence checks.
\<close>

theorem merge_missing_inputs:
  "(\<not> path_exists E (clock s) v \<longrightarrow>
      merge_audio_video E v a sid s = (Inr v, tick s)) \<and>
   (path_exists E (clock s) v \<and> \<not> path_exists E (Suc (clock s)) a \<longrightarrow>
      merge_audio_video E v a sid s = (Inr v, tick (tick s))) \<and>
   launched (tick s) = launched s \<and> launched (tick (tick s)) = launched s"
  by (simp add: merge_audio_video_def merge_audio_video_try_def tick_def)

theorem merge_missing_inputs_witness:
  "merge_audio_video no_files_env ''v.mp4'' ''a.wav'' ''s1'' start_state
     = (Inr ''v.mp4'', \<lparr>clock = 1, launched = []\<rparr>) \<and>
   merge_audio_video ((probe_env ''8.0'' ''12.0'')\<lparr>path_exists := (\<lambda>t p. p = ''v.mp4'')\<rparr>)
       ''v.mp4'' ''a.wav'' ''s1'' start_state
     = (Inr ''v.mp4'', \<lparr>clock = 2, launched = []\<rparr>)"
  using merge_missing_inputs [of no_files_env start_state "''v.mp4''" "''a.wav''" "''s1''"]
    merge_missing_inputs [of "(probe_env ''8.0'' ''12.0'')\<lparr>path_exists := (\<lambda>t p. p = ''v.mp4'')\<rparr>"
      start_state "''v.mp4''" "''a.wav''" "''s1''"]
  by (simp add: no_files_env_def probe_env_def start_state_def tick_def)

lemma probe_video_state:
  "get_video_duration E v s = (vd, s1) \<Longrightarrow> launched s1 = launched s \<and> clock s1 = Suc (clock s)"
  by (auto simp: get_video_duration_def tick_def)

lemma probe_audio_state:
  "get_audio_duration E a s = (ad, s1) \<Longrightarrow> launched s1 = launched s \<and> clock s1 = Suc (clock s)"
  by (auto simp: get_audio_duration_def tick_def)

lemma launched_simple_merge:
  "launched (snd (simple_merge E v a out s)) = launched s @ [SimpleMerge v a out]"
  by (simp add: simple_merge_def launch_def Let_def)

lemma launched_audio_loop:
  "launched (snd (merge_with_audio_loop E v a out t s)) = launched s @ AudioLoop v a t out #
     (case run_ffmpeg E (clock s) (AudioLoop v a t out) of
        RunRaised e \<Rightarrow> []
      | Completed rc out' \<Rightarrow> if rc = 0 then [] else [SimpleMerge v a out])"
  by (simp add: merge_with_audio_loop_def simple_merge_def launch_def Let_def split: proc.splits)

lemma speed_adjust_cases:
  assumes "get_video_duration E v s = (vd2, s1)"
  shows "(vd2 = None \<longrightarrow>
            merge_with_video_speed_adjust E v a out da s = simple_merge E v a out s1) \<and>
         (\<forall>dv2. vd2 = Some dv2 \<and> fdiv dv2 da = None \<longrightarrow>
            merge_with_video_speed_adjust E v a out da s = (False, s1)) \<and>
         (\<forall>dv2 f. vd2 = Some dv2 \<and> fdiv dv2 da = Some f \<and>
              (flt f (Fin (1 / 2)) \<or> flt (Fin 2) f) \<longrightarrow>
            merge_with_video_speed_adjust E v a out da s = simple_merge E v a out s1) \<and>
         (\<forall>dv2 f. vd2 = Some dv2 \<and> fdiv dv2 da = Some f \<and>
              \<not> flt f (Fin (1 / 2)) \<and> \<not> flt (Fin 2) f \<longrightarrow>
            launched (snd (merge_with_video_speed_adjust E v a out da s)) =
              launched s1 @ SpeedAdjust v a f out #
                (case run_ffmpeg E (clock s1) (SpeedAdjust v a f out) of
                   RunRaised e \<Rightarrow> []
                 | Completed rc out' \<Rightarrow> if rc = 0 then [] else [SimpleMerge v a out]))"
  using assms
  by (auto simp: merge_with_video_speed_adjust_def simple_merge_def launch_def Let_def
      split: proc.splits)

lemma speed_adjust_launched_shape:
  "\<exists>cs. launched (snd (merge_with_video_speed_adjust E v a out da s)) = launched s @ cs \<and>
     (cs = [] \<or> cs = [SimpleMerge v a out] \<or>
      (\<exists>f. cs = [SpeedAdjust v a f out] \<or> cs = [SpeedAdjust v a f out, SimpleMerge v a out]))"
proof -
  obtain vd2 s1 where p: "get_video_duration E v s = (vd2, s1)" by (cases "get_video_duration E v s")
  have l: "launched s1 = launched s" using probe_video_state [OF p] by simp
  show ?thesis
  proof (cases vd2)
    case None
    then show ?thesis using speed_adjust_cases [OF p, of a out da] l
      by (simp add: launched_simple_merge)
  next
    case (Some dv2)
    show ?thesis
    proof (cases "fdiv dv2 da")
      case None
      then show ?thesis using speed_adjust_cases [OF p, of a out da] l Some by simp
    next
      case f: (Some f)
      show ?thesis
      proof (cases "flt f (Fin (1 / 2)) \<or> flt (Fin 2) f")
        case True
        then have "merge_with_video_speed_adjust E v a out da s = simple_merge E v a out s1"
          using speed_adjust_cases [OF p, of a out da] Some f by blast
        then show ?thesis using l by (simp add: launched_simple_merge)
      next
        case False
        then have "launched (snd (merge_with_video_speed_adjust E v a out da s)) =
              launched s1 @ SpeedAdjust v a f out #
                (case run_ffmpeg E (clock s1) (SpeedAdjust v a f out) of
                   RunRaised e \<Rightarrow> []
                 | Completed rc out' \<Rightarrow> if rc = 0 then [] else [SimpleMerge v a out])"
          using speed_adjust_cases [OF p, of a out da] Some f by blast
        then show ?thesis using l by (auto split: proc.splits)
      qed
    qed
  qed
qed

text \<open>
  C3 (amended): with \<open>vd\<close> and \<open>ad\<close> the two probe results, \<open>_merge_with_ffmpeg\<close> launches
  \<^item> the direct mux, and nothing else, when a probe failed or the float
    \<open>abs(video_duration - audio_duration)\<close> is less than \<open>3.0\<close>;
  \<^item> the audio-loop command with \<open>-t\<close> the video duration when that float is not less
    than \<open>3.0\<close> and \<open>video_duration > audio_duration\<close> (then the direct mux only if the
    audio-loop command exits with an error);
  \<^item> the commands of \<open>_merge_with_video_speed_adjust\<close> with the audio duration as target
    in every other case: the video is not longer, or a duration is a NaN. They are
    the time-scale command or the direct mux that replaces it, never the audio loop.
  The difference is the binary64 one: it is the exact difference rounded.
\<close>

theorem merge_with_ffmpeg_strategy:
  assumes "get_video_duration E v s = (vd, s1)" and "get_audio_duration E a s1 = (ad, s2)"
  shows "(vd = None \<or> ad = None \<longrightarrow>
            merge_with_ffmpeg E v a out s = simple_merge E v a out s2 \<and>
            launched (snd (merge_with_ffmpeg E v a out s)) = launched s @ [SimpleMerge v a out]) \<and>
         (\<forall>dv da. vd = Some dv \<and> ad = Some da \<and> flt (fabs (fsub dv da)) (Fin 3) \<longrightarrow>
            merge_with_ffmpeg E v a out s = simple_merge E v a out s2 \<and>
            launched (snd (merge_with_ffmpeg E v a out s)) = launched s @ [SimpleMerge v a out]) \<and>
         (\<forall>dv da. vd = Some dv \<and> ad = Some da \<and> \<not> flt (fabs (fsub dv da)) (Fin 3) \<and>
              flt da dv \<longrightarrow>
            launched (snd (merge_with_ffmpeg E v a out s)) =
              launched s @ AudioLoop v a dv out #
                (case run_ffmpeg E (clock s2) (AudioLoop v a dv out) of
                   RunRaised e \<Rightarrow> []
                 | Completed rc out' \<Rightarrow> if rc = 0 then [] else [SimpleMerge v a out])) \<and>
         (\<forall>dv da. vd = Some dv \<and> ad = Some da \<and> \<not> flt (fabs (fsub dv da)) (Fin 3) \<and>
              \<not> flt da dv \<longrightarrow>
            merge_with_ffmpeg E v a out s = merge_with_video_speed_adjust E v a out da s2 \<and>
            (\<exists>cs. launched (snd (merge_with_ffmpeg E v a out s)) = launched s @ cs \<and>
               (cs = [] \<or> cs = [SimpleMerge v a out] \<or>
                (\<exists>f. cs = [SpeedAdjust v a f out] \<or>
                      cs = [SpeedAdjust v a f out, SimpleMerge v a out]))))"
proof -
  have l: "launched s2 = launched s"
    using probe_video_state [OF assms(1)] probe_audio_state [OF assms(2)] by simp
  have 1: "vd = None \<or> ad = None \<Longrightarrow>
      merge_with_ffmpeg E v a out s = simple_merge E v a out s2"
    using assms by (auto simp: merge_with_ffmpeg_def)
  have 2: "vd = Some dv \<Longrightarrow> ad = Some da \<Longrightarrow> flt (fabs (fsub dv da)) (Fin 3) \<Longrightarrow>
      merge_with_ffmpeg E v a out s = simple_merge E v a out s2" for dv da
    using assms by (auto simp: merge_with_ffmpeg_def)
  have 3: "vd = Some dv \<Longrightarrow> ad = Some da \<Longrightarrow> \<not> flt (fabs (fsub dv da)) (Fin 3) \<Longrightarrow>
      flt da dv \<Longrightarrow>
      merge_with_ffmpeg E v a out s = merge_with_audio_loop E v a out dv s2" for dv da
    using assms by (auto simp: merge_with_ffmpeg_def)
  have 4: "vd = Some dv \<Longrightarrow> ad = Some da \<Longrightarrow> \<not> flt (fabs (fsub dv da)) (Fin 3) \<Longrightarrow>
      \<not> flt da dv \<Longrightarrow>
      merge_with_ffmpeg E v a out s = merge_with_video_speed_adjust E v a out da s2" for dv da
    using assms by (auto simp: merge_with_ffmpeg_def)
  show ?thesis
  proof (intro conjI allI impI)
    assume "vd = None \<or> ad = None"
    then show "merge_with_ffmpeg E v a out s = simple_merge E v a out s2" by (rule 1)
    then show "launched (snd (merge_with_ffmpeg E v a out s)) = launched s @ [SimpleMerge v a out]"
      by (simp add: launched_simple_merge l)
  next
    fix dv da
    assume "vd = Some dv \<and> ad = Some da \<and> flt (fabs (fsub dv da)) (Fin 3)"
    then show "merge_with_ffmpeg E v a out s = simple_merge E v a out s2" using 2 by blast
    then show "launched (snd (merge_with_ffmpeg E v a out s)) = launched s @ [SimpleMerge v a out]"
      by (simp add: launched_simple_merge l)
  next
    fix dv da
    assume "vd = Some dv \<and> ad = Some da \<and> \<not> flt (fabs (fsub dv da)) (Fin 3) \<and> flt da dv"
    then have "merge_with_ffmpeg E v a out s = merge_with_audio_loop E v a out dv s2"
      using 3 by blast
    then show "launched (snd (merge_with_ffmpeg E v a out s)) =
              launched s @ AudioLoop v a dv out #
                (case run_ffmpeg E (clock s2) (AudioLoop v a dv out) of
                   RunRaised e \<Rightarrow> []
                 | Completed rc out' \<Rightarrow> if rc = 0 then [] else [SimpleMerge v a out])"
      by (simp add: launched_audio_loop l)
  next
    fix dv da
    assume "vd = Some dv \<and> ad = Some da \<and> \<not> flt (fabs (fsub dv da)) (Fin 3) \<and> \<not> flt da dv"
    then show e: "merge_with_ffmpeg E v a out s = merge_with_video_speed_adjust E v a out da s2"
      using 4 by blast
    show "\<exists>cs. launched (snd (merge_with_ffmpeg E v a out s)) = launched s @ cs \<and>
               (cs = [] \<or> cs = [SimpleMerge v a out] \<or>
                (\<exists>f. cs = [SpeedAdjust v a f out] \<or>
                      cs = [SpeedAdjust v a f out, SimpleMerge v a out]))"
      using speed_adjust_launched_shape [of E v a out da s2] by (simp add: e l)
  qed
qed


lemma bitlen_numeral_simps:
  "bitlen 1 = 1"
  "bitlen (numeral Num.One) = 1"
  "bitlen (numeral (Num.Bit0 n)) = bitlen (numeral n) + 1"
  "bitlen (numeral (Num.Bit1 n)) = bitlen (numeral n) + 1"
  using compute_bitlen [of 1] compute_bitlen [of "numeral (Num.Bit0 n)"]
    compute_bitlen [of "numeral (Num.Bit1 n)"]
  by simp_all

lemmas round_simps = round_double_def binade_def round_half_even_def pow2_def Let_def
  bitlen_numeral_simps

lemma float_table_values:
  "float_table ''8.0'' = Some (Fin 8)" "float_table ''12.0'' = Some (Fin 12)"
  "float_table ''40.0'' = Some (Fin 40)" "float_table ''10.0'' = Some (Fin 10)"
  "float_table ''10.5'' = Some (Fin (21 / 2))" "float_table ''2.0'' = Some (Fin 2)"
  "float_table ''3.300000'' = Some (Fin (3715469692580659 / 1125899906842624))"
  "float_table ''0.300000'' = Some (Fin (5404319552844595 / 18014398509481984))"
  "float_table ''nan'' = Some NaN"
  by (simp_all add: float_table_def round_simps)

lemma float_arith:
  "fsub (Fin 10) (Fin (21 / 2)) = Fin (- 1 / 2)" "fsub (Fin 40) (Fin 8) = Fin 32"
  "fsub (Fin 8) (Fin 12) = Fin (- 4)" "fsub (Fin 8) (Fin 40) = Fin (- 32)"
  "fsub (Fin (3715469692580659 / 1125899906842624))
     (Fin (5404319552844595 / 18014398509481984)) = Fin 3"
  "fdiv (Fin 8) (Fin 12) = Some (Fin (6004799503160661 / 9007199254740992))"
  "fdiv (Fin 8) (Fin 40) = Some (Fin (3602879701896397 / 18014398509481984))"
  "fdiv (Fin 2) (Fin 12) = Some (Fin (6004799503160661 / 36028797018963968))"
  by (simp_all add: round_simps)

lemma probe_env_run: "run_ffmpeg (probe_env dv da) n c = Completed 0 []"
  by (simp add: probe_env_def)

lemma probes:
  "get_video_duration (probe_env ''10.0'' da) ''v.mp4'' s = (Some (Fin 10), tick s)"
  "get_video_duration (probe_env ''40.0'' da) ''v.mp4'' s = (Some (Fin 40), tick s)"
  "get_video_duration (probe_env ''8.0'' da) ''v.mp4'' s = (Some (Fin 8), tick s)"
  "get_video_duration (probe_env ''3.300000'' da) ''v.mp4'' s
     = (Some (Fin (3715469692580659 / 1125899906842624)), tick s)"
  "get_audio_duration (probe_env dv ''10.5'') ''a.wav'' s = (Some (Fin (21 / 2)), tick s)"
  "get_audio_duration (probe_env dv ''8.0'') ''a.wav'' s = (Some (Fin 8), tick s)"
  "get_audio_duration (probe_env dv ''12.0'') ''a.wav'' s = (Some (Fin 12), tick s)"
  "get_audio_duration (probe_env dv ''40.0'') ''a.wav'' s = (Some (Fin 40), tick s)"
  "get_audio_duration (probe_env dv ''0.300000'') ''a.wav'' s
     = (Some (Fin (5404319552844595 / 18014398509481984)), tick s)"
  by (simp_all add: probe_env_video probe_env_audio strip_float_literals float_table_values)

text \<open>
  C3 as stated fails when the durations are read as exact numbers of seconds. The
  probe outputs \<open>3.300000\<close> and \<open>0.300000\<close> are the floats \<open>3.29999999999999982...\<close> and
  \<open>0.29999999999999998...\<close>, whose exact difference is below 3: the specification
  selects the direct mux. The float difference is \<open>3.0\<close>, which is not less than \<open>3.0\<close>,
  and the merger launches the audio-loop command.
\<close>

theorem exact_difference_counterexample:
  "float_table ''3.300000'' = Some (Fin (3715469692580659 / 1125899906842624)) \<and>
   float_table ''0.300000'' = Some (Fin (5404319552844595 / 18014398509481984)) \<and>
   spec_strategy (Some (3715469692580659 / 1125899906842624))
     (Some (5404319552844595 / 18014398509481984)) = DirectMux \<and>
   launched (snd (merge_with_ffmpeg (probe_env ''3.300000'' ''0.300000'')
       ''v.mp4'' ''a.wav'' ''o.mp4'' start_state))
     = [AudioLoop ''v.mp4'' ''a.wav'' (Fin (3715469692580659 / 1125899906842624)) ''o.mp4'']"
  by (simp del: fsub.simps fdiv.simps
      add: float_table_values spec_strategy_def merge_with_ffmpeg_def probes float_arith
      launched_audio_loop probe_env_run start_state_def tick_def)

theorem merge_with_ffmpeg_strategy_witness:
  "launched (snd (merge_with_ffmpeg (probe_env ''10.0'' ''10.5'') ''v.mp4'' ''a.wav'' ''o.mp4''
       start_state)) = [SimpleMerge ''v.mp4'' ''a.wav'' ''o.mp4''] \<and>
   launched (snd (merge_with_ffmpeg (probe_env ''40.0'' ''8.0'') ''v.mp4'' ''a.wav'' ''o.mp4''
       start_state)) = [AudioLoop ''v.mp4'' ''a.wav'' (Fin 40) ''o.mp4''] \<and>
   merge_with_ffmpeg (probe_env ''8.0'' ''12.0'') ''v.mp4'' ''a.wav'' ''o.mp4'' start_state
     = merge_with_video_speed_adjust (probe_env ''8.0'' ''12.0'') ''v.mp4'' ''a.wav'' ''o.mp4''
         (Fin 12) (tick (tick start_state))"
proof -
  have l: "launched start_state = []" by (simp add: start_state_def)
  from merge_with_ffmpeg_strategy [OF probes(1) probes(5), where out = "''o.mp4''" and s = start_state]
  have "launched (snd (merge_with_ffmpeg (probe_env ''10.0'' ''10.5'') ''v.mp4'' ''a.wav'' ''o.mp4''
       start_state)) = [SimpleMerge ''v.mp4'' ''a.wav'' ''o.mp4'']"
    by (simp del: fsub.simps fdiv.simps add: float_arith l launched_simple_merge tick_def)
  moreover
  from merge_with_ffmpeg_strategy [OF probes(2) probes(6), where out = "''o.mp4''" and s = start_state]
  have "launched (snd (merge_with_ffmpeg (probe_env ''40.0'' ''8.0'') ''v.mp4'' ''a.wav'' ''o.mp4''
       start_state)) = [AudioLoop ''v.mp4'' ''a.wav'' (Fin 40) ''o.mp4'']"
    by (simp del: fsub.simps fdiv.simps add: float_arith l probe_env_run)
  moreover
  from merge_with_ffmpeg_strategy [OF probes(3) probes(7), where out = "''o.mp4''" and s = start_state]
  have "merge_with_ffmpeg (probe_env ''8.0'' ''12.0'') ''v.mp4'' ''a.wav'' ''o.mp4'' start_state
     = merge_with_video_speed_adjust (probe_env ''8.0'' ''12.0'') ''v.mp4'' ''a.wav'' ''o.mp4''
         (Fin 12) (tick (tick start_state))"
    by (simp del: fsub.simps fdiv.simps add: float_arith)
  ultimately show ?thesis by blast
qed


lemma fdiv_none_iff: "fdiv x y = None \<longleftrightarrow> y = Fin 0 \<or> y = NegZero"
  by (cases y) simp_all

text \<open>
  C4 (amended): when the time-scale strategy is selected (both probes answered, the
  float difference is not less than \<open>3.0\<close>, the video is not longer),
  \<open>_merge_with_video_speed_adjust\<close> probes the video a second time.
  \<^item> If the second probe fails, the direct mux is launched.
  \<^item> If the audio duration is a zero, the division raises, no command is launched and
    the merge reports \<open>False\<close>.
  \<^item> Otherwise the speed factor is the float quotient of the second probe's duration
    and the audio duration (the exact quotient rounded; \<open>Dv / Da\<close> rounded when the
    second probe answers \<open>Dv\<close> again). The direct mux is launched when the factor is
    less than \<open>0.5\<close> or greater than \<open>2.0\<close>; in every other case (the factor is in the
    range, or it is a NaN) the command with \<open>setpts=PTS/factor\<close> is launched, and the
    direct mux after it only if it exits with an error.
\<close>

theorem time_scale_speed_factor:
  assumes "get_video_duration E v s = (Some dv, s1)"
    and "get_audio_duration E a s1 = (Some da, s2)"
    and "\<not> flt (fabs (fsub dv da)) (Fin 3)" and "\<not> flt da dv"
    and "get_video_duration E v s2 = (vd2, s3)"
  shows "(vd2 = None \<longrightarrow>
            launched (snd (merge_with_ffmpeg E v a out s)) = launched s @ [SimpleMerge v a out]) \<and>
         (\<forall>dv2. vd2 = Some dv2 \<and> (da = Fin 0 \<or> da = NegZero) \<longrightarrow>
            merge_with_ffmpeg E v a out s = (False, s3) \<and> launched s3 = launched s) \<and>
         (\<forall>dv2. vd2 = Some dv2 \<and> da \<noteq> Fin 0 \<and> da \<noteq> NegZero \<longrightarrow>
            (\<exists>f. fdiv dv2 da = Some f \<and>
               (\<forall>x y. dv2 = Fin x \<and> da = Fin y \<and> x \<noteq> 0 \<longrightarrow> f = round_double (x / y)) \<and>
               launched (snd (merge_with_ffmpeg E v a out s)) = launched s @
                 (if flt f (Fin (1 / 2)) \<or> flt (Fin 2) f then [SimpleMerge v a out]
                  else SpeedAdjust v a f out #
                    (case run_ffmpeg E (clock s3) (SpeedAdjust v a f out) of
                       RunRaised e \<Rightarrow> []
                     | Completed rc out' \<Rightarrow> if rc = 0 then [] else [SimpleMerge v a out]))))"
proof -
  have l: "launched s3 = launched s"
    using probe_video_state [OF assms(1)] probe_audio_state [OF assms(2)]
      probe_video_state [OF assms(5)] by simp
  have sel: "merge_with_ffmpeg E v a out s = merge_with_video_speed_adjust E v a out da s2"
    using assms(1-4) by (auto simp: merge_with_ffmpeg_def)
  note c = speed_adjust_cases [OF assms(5), of a out da]
  show ?thesis
  proof (intro conjI allI impI)
    assume "vd2 = None"
    then show "launched (snd (merge_with_ffmpeg E v a out s)) = launched s @ [SimpleMerge v a out]"
      using c by (simp add: sel launched_simple_merge l)
  next
    fix dv2
    assume h: "vd2 = Some dv2 \<and> (da = Fin 0 \<or> da = NegZero)"
    then have "fdiv dv2 da = None" by (simp add: fdiv_none_iff)
    then show "merge_with_ffmpeg E v a out s = (False, s3)" using c h by (simp add: sel)
    show "launched s3 = launched s" by (rule l)
  next
    fix dv2
    assume h: "vd2 = Some dv2 \<and> da \<noteq> Fin 0 \<and> da \<noteq> NegZero"
    then obtain f where f: "fdiv dv2 da = Some f"
      using fdiv_none_iff [of dv2 da] by (cases "fdiv dv2 da") auto
    have q: "\<forall>x y. dv2 = Fin x \<and> da = Fin y \<and> x \<noteq> 0 \<longrightarrow> f = round_double (x / y)"
      using f h by (auto split: if_splits)
    have "launched (snd (merge_with_ffmpeg E v a out s)) = launched s @
                 (if flt f (Fin (1 / 2)) \<or> flt (Fin 2) f then [SimpleMerge v a out]
                  else SpeedAdjust v a f out #
                    (case run_ffmpeg E (clock s3) (SpeedAdjust v a f out) of
                       RunRaised e \<Rightarrow> []
                     | Completed rc out' \<Rightarrow> if rc = 0 then [] else [SimpleMerge v a out]))"
    proof (cases "flt f (Fin (1 / 2)) \<or> flt (Fin 2) f")
      case True
      then have "merge_with_video_speed_adjust E v a out da s2 = simple_merge E v a out s3"
        using c h f by blast
      then show ?thesis using True by (simp add: sel launched_simple_merge l)
    next
      case False
      then have "launched (snd (merge_with_video_speed_adjust E v a out da s2)) =
              launched s3 @ SpeedAdjust v a f out #
                (case run_ffmpeg E (clock s3) (SpeedAdjust v a f out) of
                   RunRaised e \<Rightarrow> []
                 | Completed rc out' \<Rightarrow> if rc = 0 then [] else [SimpleMerge v a out])"
        using c h f by blast
      then show ?thesis using False by (simp add: sel l)
    qed
    then show "\<exists>f. fdiv dv2 da = Some f \<and>
               (\<forall>x y. dv2 = Fin x \<and> da = Fin y \<and> x \<noteq> 0 \<longrightarrow> f = round_double (x / y)) \<and>
               launched (snd (merge_with_ffmpeg E v a out s)) = launched s @
                 (if flt f (Fin (1 / 2)) \<or> flt (Fin 2) f then [SimpleMerge v a out]
                  else SpeedAdjust v a f out #
                    (case run_ffmpeg E (clock s3) (SpeedAdjust v a f out) of
                       RunRaised e \<Rightarrow> []
                     | Completed rc out' \<Rightarrow> if rc = 0 then [] else [SimpleMerge v a out]))"
      using f q by blast
  qed
qed

theorem time_scale_speed_factor_witness:
  "launched (snd (merge_with_ffmpeg (probe_env ''8.0'' ''12.0'') ''v.mp4'' ''a.wav'' ''o.mp4''
       start_state))
     = [SpeedAdjust ''v.mp4'' ''a.wav'' (Fin (6004799503160661 / 9007199254740992)) ''o.mp4''] \<and>
   launched (snd (merge_with_ffmpeg (probe_env ''8.0'' ''40.0'') ''v.mp4'' ''a.wav'' ''o.mp4''
       start_state))
     = [SimpleMerge ''v.mp4'' ''a.wav'' ''o.mp4'']"
proof -
  have l: "launched start_state = []" by (simp add: start_state_def)
  have c: "\<not> flt (fabs (fsub (Fin 8) (Fin 12))) (Fin 3)" "\<not> flt (Fin 12) (Fin 8)"
    "\<not> flt (fabs (fsub (Fin 8) (Fin 40))) (Fin 3)" "\<not> flt (Fin 40) (Fin 8)"
    by (simp_all del: fsub.simps add: float_arith)
  from time_scale_speed_factor [OF probes(3) probes(7) c(1) c(2) probes(3),
      where out = "''o.mp4''" and s = start_state]
  have "launched (snd (merge_with_ffmpeg (probe_env ''8.0'' ''12.0'') ''v.mp4'' ''a.wav'' ''o.mp4''
       start_state))
     = [SpeedAdjust ''v.mp4'' ''a.wav'' (Fin (6004799503160661 / 9007199254740992)) ''o.mp4'']"
    by (simp del: fdiv.simps add: float_arith l probe_env_run)
  moreover
  from time_scale_speed_factor [OF probes(3) probes(8) c(3) c(4) probes(3),
      where out = "''o.mp4''" and s = start_state]
  have "launched (snd (merge_with_ffmpeg (probe_env ''8.0'' ''40.0'') ''v.mp4'' ''a.wav'' ''o.mp4''
       start_state))
     = [SimpleMerge ''v.mp4'' ''a.wav'' ''o.mp4'']"
    by (simp del: fdiv.simps add: float_arith l probe_env_run)
  ultimately show ?thesis by blast
qed

lemma reprobe_env_probes:
  "get_video_duration (reprobe_env third) ''v.mp4'' start_state = (Some (Fin 8), tick start_state)"
  "get_audio_duration (reprobe_env third) ''a.wav'' (tick start_state)
     = (Some (Fin 12), tick (tick start_state))"
  "get_video_duration (reprobe_env (Completed 1 [])) ''v.mp4'' (tick (tick start_state))
     = (None, tick (tick (tick start_state)))"
  "get_video_duration (reprobe_env (Completed 0 ''2.0'')) ''v.mp4'' (tick (tick start_state))
     = (Some (Fin 2), tick (tick (tick start_state)))"
  by (simp_all add: get_video_duration_def get_audio_duration_def reprobe_env_def probe_env_def
      start_state_def tick_def strip_float_literals float_table_values)

text \<open>
  C4 as stated fails: the speed factor is not computed from the duration \<open>Dv\<close> that
  selected the strategy but from a second probe of the video. With \<open>Dv = 8\<close> and
  \<open>Da = 12\<close> the specification applies the time scaling (\<open>8 / 12\<close> is in the range); when
  the second probe exits with an error, or prints \<open>2.0\<close>, the merger launches the
  direct mux only.
\<close>

theorem second_probe_counterexample:
  "spec_strategy (Some 8) (Some 12) = VideoTimeScale \<and>
   spec_time_scale_applied 8 12 \<and>
   launched (snd (merge_with_ffmpeg (reprobe_env (Completed 1 [])) ''v.mp4'' ''a.wav'' ''o.mp4''
       start_state)) = [SimpleMerge ''v.mp4'' ''a.wav'' ''o.mp4''] \<and>
   launched (snd (merge_with_ffmpeg (reprobe_env (Completed 0 ''2.0'')) ''v.mp4'' ''a.wav''
       ''o.mp4'' start_state)) = [SimpleMerge ''v.mp4'' ''a.wav'' ''o.mp4'']"
proof -
  have 1: "merge_with_ffmpeg (reprobe_env (Completed 1 [])) ''v.mp4'' ''a.wav'' ''o.mp4''
       start_state
     = simple_merge (reprobe_env (Completed 1 [])) ''v.mp4'' ''a.wav'' ''o.mp4''
         (tick (tick (tick start_state)))"
    by (simp del: fsub.simps fdiv.simps
        add: merge_with_ffmpeg_def merge_with_video_speed_adjust_def reprobe_env_probes
          float_arith)
  have 2: "merge_with_ffmpeg (reprobe_env (Completed 0 ''2.0'')) ''v.mp4'' ''a.wav'' ''o.mp4''
       start_state
     = simple_merge (reprobe_env (Completed 0 ''2.0'')) ''v.mp4'' ''a.wav'' ''o.mp4''
         (tick (tick (tick start_state)))"
    by (simp del: fsub.simps fdiv.simps
        add: merge_with_ffmpeg_def merge_with_video_speed_adjust_def reprobe_env_probes
          float_arith)
  show ?thesis
    unfolding 1 2
    by (simp add: spec_strategy_def spec_time_scale_applied_def spec_speed_factor_def
        launched_simple_merge start_state_def tick_def)
qed

section \<open>Verified properties: the background worker\<close>

lemma dict_update_present:
  "(last tr) sid = Some x \<Longrightarrow> dict_update sid f tr = Inr (tr @ [(last tr)(sid \<mapsto> f x)])"
  by (simp add: dict_update_def)

lemmas enter_defs = enter_analysis_def enter_script_def enter_audio_def enter_video_def
  enter_merge_def complete_def record_error_def initial_session_def

lemma stage_outcomes:
  fixes S :: "'a stages"
  obtains (a) e where "analyze S url = Inl e"
    | (b) ra e where "analyze S url = Inr ra" "script S ra = Inl e"
    | (c) ra sc e where "analyze S url = Inr ra" "script S ra = Inr sc" "audio S sc sid = Inl e"
    | (d) ra sc au e where "analyze S url = Inr ra" "script S ra = Inr sc"
        "audio S sc sid = Inr au" "video S sc ra sid = Inl e"
    | (e) ra sc au vi e where "analyze S url = Inr ra" "script S ra = Inr sc"
        "audio S sc sid = Inr au" "video S sc ra sid = Inr vi" "merge S vi au sid = Inl e"
    | (f) ra sc au vi fi where "analyze S url = Inr ra" "script S ra = Inr sc"
        "audio S sc sid = Inr au" "video S sc ra sid = Inr vi" "merge S vi au sid = Inr fi"
  by (metis sum.exhaust)

lemma take_code_stage_checkpoint:
  "take 2 code_stage_checkpoint = [(''starting'', 0), (''analyzing'', 10)]"
  "take 3 code_stage_checkpoint = [(''starting'', 0), (''analyzing'', 10), (''analyzing'', 30)]"
  "take 4 code_stage_checkpoint =
     [(''starting'', 0), (''analyzing'', 10), (''analyzing'', 30), (''analyzing'', 50)]"
  "take 5 code_stage_checkpoint =
     [(''starting'', 0), (''analyzing'', 10), (''analyzing'', 30), (''analyzing'', 50),
      (''analyzing'', 70)]"
  "take 6 code_stage_checkpoint =
     [(''starting'', 0), (''analyzing'', 10), (''analyzing'', 30), (''analyzing'', 50),
      (''analyzing'', 70), (''analyzing'', 90)]"
  by (simp_all add: code_stage_checkpoint_def)

text \<open>
  What a run writes, by the first stage that raises: the entries of the table up to
  that stage, then one \<open>error\<close> entry with the progress unchanged; the whole table when
  no stage raises. No exception leaves the worker.
\<close>

lemma observed_run:
  assumes "process_repository S url sid reg = (tr, esc)"
  shows "esc = None \<and>
    (observed sid tr = code_stage_checkpoint \<or>
     (\<exists>n. 2 \<le> n \<and> n \<le> 6 \<and>
        observed sid tr =
          take n code_stage_checkpoint @ [(''error'', snd (last (take n code_stage_checkpoint)))]))"
proof (cases rule: stage_outcomes [where S = S and url = url and sid = sid])
  case a
  have "esc = None \<and> observed sid tr =
      take 2 code_stage_checkpoint @ [(''error'', snd (last (take 2 code_stage_checkpoint)))]"
    using assms a unfolding process_repository_def process_repository_background_def
      process_repository_background_try_def take_code_stage_checkpoint
    by (auto simp: dict_update_present enter_defs observed_def get_status_def)
  then show ?thesis by (intro conjI disjI2 exI[of _ 2]) simp_all
next
  case b
  have "esc = None \<and> observed sid tr =
      take 3 code_stage_checkpoint @ [(''error'', snd (last (take 3 code_stage_checkpoint)))]"
    using assms b unfolding process_repository_def process_repository_background_def
      process_repository_background_try_def take_code_stage_checkpoint
    by (auto simp: dict_update_present enter_defs observed_def get_status_def)
  then show ?thesis by (intro conjI disjI2 exI[of _ 3]) simp_all
next
  case c
  have "esc = None \<and> observed sid tr =
      take 4 code_stage_checkpoint @ [(''error'', snd (last (take 4 code_stage_checkpoint)))]"
    using assms c unfolding process_repository_def process_repository_background_def
      process_repository_background_try_def take_code_stage_checkpoint
    by (auto simp: dict_update_present enter_defs observed_def get_status_def)
  then show ?thesis by (intro conjI disjI2 exI[of _ 4]) simp_all
next
  case d
  have "esc = None \<and> observed sid tr =
      take 5 code_stage_checkpoint @ [(''error'', snd (last (take 5 code_stage_checkpoint)))]"
    using assms d unfolding process_repository_def process_repository_background_def
      process_repository_background_try_def take_code_stage_checkpoint
    by (auto simp: dict_update_present enter_defs observed_def get_status_def)
  then show ?thesis by (intro conjI disjI2 exI[of _ 5]) simp_all
next
  case e
  have "esc = None \<and> observed sid tr =
      take 6 code_stage_checkpoint @ [(''error'', snd (last (take 6 code_stage_checkpoint)))]"
    using assms e unfolding process_repository_def process_repository_background_def
      process_repository_background_try_def take_code_stage_checkpoint
    by (auto simp: dict_update_present enter_defs observed_def get_status_def)
  then show ?thesis by (intro conjI disjI2 exI[of _ 6]) simp_all
next
  case f
  have "esc = None \<and> observed sid tr = code_stage_checkpoint"
    using assms f unfolding process_repository_def process_repository_background_def
      process_repository_background_try_def
    by (auto simp: dict_update_present enter_defs observed_def get_status_def
        code_stage_checkpoint_def)
  then show ?thesis by simp
qed

lemma sorted_map_nth:
  fixes xs :: "int list"
  assumes "sorted xs" and "sorted idxs" and "\<forall>i\<in>set idxs. i < length xs"
  shows "sorted (map (\<lambda>i. xs ! i) idxs)"
  using assms(2,3)
proof (induction idxs)
  case Nil
  then show ?case by simp
next
  case (Cons i idxs)
  have "xs ! i \<le> xs ! j" if "j \<in> set idxs" for j
  proof -
    have "i \<le> j" "j < length xs" using Cons.prems that by auto
    then show ?thesis using assms(1) by (simp add: sorted_nth_mono)
  qed
  then show ?case using Cons by auto
qed

lemma length_observed: "length (observed sid tr) = length tr"
  by (simp add: observed_def)

lemma map_snd_polls:
  "\<forall>i\<in>set idxs. i < length tr \<Longrightarrow>
   map snd (polls sid tr idxs) = map (\<lambda>i. map snd (observed sid tr) ! i) idxs"
  by (simp add: polls_def length_observed)

lemma observed_run_sorted:
  assumes "process_repository S url sid reg = (tr, esc)"
  shows "sorted (map snd (observed sid tr)) \<and>
     (last (observed sid tr) = (''completed'', 100) \<or>
      (fst (last (observed sid tr)) = ''error'' \<and> snd (last (observed sid tr)) < 100))"
proof -
  from observed_run [OF assms]
  consider "observed sid tr = code_stage_checkpoint"
    | n where "2 \<le> n" "n \<le> 6"
        "observed sid tr =
          take n code_stage_checkpoint @ [(''error'', snd (last (take n code_stage_checkpoint)))]"
    by blast
  then show ?thesis
  proof cases
    case 1
    then show ?thesis by (simp add: code_stage_checkpoint_def)
  next
    case 2
    then have "n = 2 \<or> n = 3 \<or> n = 4 \<or> n = 5 \<or> n = 6" by arith
    then show ?thesis using 2(3) by (auto simp: take_code_stage_checkpoint)
  qed
qed

lemma run_ok:
  "observed ''s1'' (fst (process_repository stages_ok ''https://github.com/a/b'' ''s1'' Map.empty)) =
     [(''starting'', 0), (''analyzing'', 10), (''analyzing'', 30), (''analyzing'', 50),
      (''analyzing'', 70), (''analyzing'', 90), (''completed'', 100)]"
  unfolding process_repository_def process_repository_background_def
        process_repository_background_try_def
  by (simp add: dict_update_present enter_defs observed_def get_status_def stages_ok_def)

lemma run_bad:
  "observed ''s1'' (fst (process_repository stages_bad_video ''https://github.com/a/b'' ''s1'' Map.empty)) =
     [(''starting'', 0), (''analyzing'', 10), (''analyzing'', 30), (''analyzing'', 50),
      (''analyzing'', 70), (''error'', 70)]"
  unfolding process_repository_def process_repository_background_def
        process_repository_background_try_def
  by (simp add: dict_update_present enter_defs observed_def get_status_def stages_ok_def stages_bad_video_def)

text \<open>
  C5 as stated fails: the worker never writes the statuses \<open>scripting\<close>,
  \<open>synthesizing_audio\<close>, \<open>rendering_video\<close> or \<open>merging\<close>. In a run whose stages all
  succeed the status stays \<open>analyzing\<close> while the progress goes from 10 to 90, so the
  progress does not follow the position of the status in the specified sequence.
\<close>

theorem stage_sequence_counterexample:
  "observed ''s1'' (fst (process_repository stages_ok ''https://github.com/a/b'' ''s1'' Map.empty)) =
     [(''starting'', 0), (''analyzing'', 10), (''analyzing'', 30), (''analyzing'', 50),
      (''analyzing'', 70), (''analyzing'', 90), (''completed'', 100)] \<and>
   observed ''s1'' (fst (process_repository stages_ok ''https://github.com/a/b'' ''s1'' Map.empty))
     \<noteq> spec_stage_checkpoint"
  by (simp add: run_ok spec_stage_checkpoint_def)

text \<open>
  C5 (amended): the status and progress a session shows over a run are fixed by the
  first stage that raises. The run starts with \<open>starting\<close>/0 and writes \<open>analyzing\<close>/10;
  every later stage entered adds its progress (30, 50, 70, 90) with the status still
  \<open>analyzing\<close>. When a stage raises, the next and last entry has the status \<open>error\<close>,
  the progress of the stage that raised, and the text of the exception in \<open>error\<close>.
  When no stage raises, the last entry is \<open>completed\<close>/100 with the merged file in
  \<open>result_file\<close> and no error. No exception leaves the worker.
\<close>

theorem status_progress_pairs:
  assumes "process_repository S url sid reg = (tr, esc)"
  shows "(\<forall>e. analyze S url = Inl e \<longrightarrow>
            observed sid tr = [(''starting'', 0), (''analyzing'', 10), (''error'', 10)] \<and>
            map_option error (get_status (last tr) sid) = Some (Some (str_of_exn e))) \<and>
         (\<forall>ra e. analyze S url = Inr ra \<and> script S ra = Inl e \<longrightarrow>
            observed sid tr =
              [(''starting'', 0), (''analyzing'', 10), (''analyzing'', 30), (''error'', 30)] \<and>
            map_option error (get_status (last tr) sid) = Some (Some (str_of_exn e))) \<and>
         (\<forall>ra sc e. analyze S url = Inr ra \<and> script S ra = Inr sc \<and> audio S sc sid = Inl e \<longrightarrow>
            observed sid tr =
              [(''starting'', 0), (''analyzing'', 10), (''analyzing'', 30), (''analyzing'', 50),
               (''error'', 50)] \<and>
            map_option error (get_status (last tr) sid) = Some (Some (str_of_exn e))) \<and>
         (\<forall>ra sc au e. analyze S url = Inr ra \<and> script S ra = Inr sc \<and>
              audio S sc sid = Inr au \<and> video S sc ra sid = Inl e \<longrightarrow>
            observed sid tr =
              [(''starting'', 0), (''analyzing'', 10), (''analyzing'', 30), (''analyzing'', 50),
               (''analyzing'', 70), (''error'', 70)] \<and>
            map_option error (get_status (last tr) sid) = Some (Some (str_of_exn e))) \<and>
         (\<forall>ra sc au vi e. analyze S url = Inr ra \<and> script S ra = Inr sc \<and>
              audio S sc sid = Inr au \<and> video S sc ra sid = Inr vi \<and>
              merge S vi au sid = Inl e \<longrightarrow>
            observed sid tr =
              [(''starting'', 0), (''analyzing'', 10), (''analyzing'', 30), (''analyzing'', 50),
               (''analyzing'', 70), (''analyzing'', 90), (''error'', 90)] \<and>
            map_option error (get_status (last tr) sid) = Some (Some (str_of_exn e))) \<and>
         (\<forall>ra sc au vi fi. analyze S url = Inr ra \<and> script S ra = Inr sc \<and>
              audio S sc sid = Inr au \<and> video S sc ra sid = Inr vi \<and>
              merge S vi au sid = Inr fi \<longrightarrow>
            observed sid tr =
              [(''starting'', 0), (''analyzing'', 10), (''analyzing'', 30), (''analyzing'', 50),
               (''analyzing'', 70), (''analyzing'', 90), (''completed'', 100)] \<and>
            map_option result_file (get_status (last tr) sid) = Some (Some fi) \<and>
            map_option error (get_status (last tr) sid) = Some None) \<and>
         esc = None"
proof (cases rule: stage_outcomes [where S = S and url = url and sid = sid])
  case a
  then show ?thesis
    using assms unfolding process_repository_def process_repository_background_def
      process_repository_background_try_def
    by (auto simp: dict_update_present enter_defs observed_def get_status_def)
next
  case b
  then show ?thesis
    using assms unfolding process_repository_def process_repository_background_def
      process_repository_background_try_def
    by (auto simp: dict_update_present enter_defs observed_def get_status_def)
next
  case c
  then show ?thesis
    using assms unfolding process_repository_def process_repository_background_def
      process_repository_background_try_def
    by (auto simp: dict_update_present enter_defs observed_def get_status_def)
next
  case d
  then show ?thesis
    using assms unfolding process_repository_def process_repository_background_def
      process_repository_background_try_def
    by (auto simp: dict_update_present enter_defs observed_def get_status_def)
next
  case e
  then show ?thesis
    using assms unfolding process_repository_def process_repository_background_def
      process_repository_background_try_def
    by (auto simp: dict_update_present enter_defs observed_def get_status_def)
next
  case f
  then show ?thesis
    using assms unfolding process_repository_def process_repository_background_def
      process_repository_background_try_def
    by (auto simp: dict_update_present enter_defs observed_def get_status_def)
qed

theorem status_progress_pairs_witness:
  "observed ''s1'' (fst (process_repository stages_bad_video ''https://github.com/a/b'' ''s1''
       Map.empty))
     = [(''starting'', 0), (''analyzing'', 10), (''analyzing'', 30), (''analyzing'', 50),
        (''analyzing'', 70), (''error'', 70)] \<and>
   map_option error (get_status (last (fst (process_repository stages_bad_video
       ''https://github.com/a/b'' ''s1'' Map.empty))) ''s1'')
     = Some (Some ''Could not generate video'') \<and>
   observed ''s1'' (fst (process_repository stages_ok ''https://github.com/a/b'' ''s1''
       Map.empty))
     = [(''starting'', 0), (''analyzing'', 10), (''analyzing'', 30), (''analyzing'', 50),
        (''analyzing'', 70), (''analyzing'', 90), (''completed'', 100)] \<and>
   map_option result_file (get_status (last (fst (process_repository stages_ok
       ''https://github.com/a/b'' ''s1'' Map.empty))) ''s1'')
     = Some (Some ''final.mp4'')"
proof -
  have b: "analyze stages_bad_video ''https://github.com/a/b'' = Inr ()"
    "script stages_bad_video () = Inr ''Welcome.''"
    "audio stages_bad_video ''Welcome.'' ''s1'' = Inr ''a.wav''"
    "video stages_bad_video ''Welcome.'' () ''s1''
       = Inl (Raised PlainException ''Could not generate video'')"
    by (simp_all add: stages_bad_video_def stages_ok_def)
  have k: "analyze stages_ok ''https://github.com/a/b'' = Inr ()"
    "script stages_ok () = Inr ''Welcome.''"
    "audio stages_ok ''Welcome.'' ''s1'' = Inr ''a.wav''"
    "video stages_ok ''Welcome.'' () ''s1'' = Inr ''v.mp4''"
    "merge stages_ok ''v.mp4'' ''a.wav'' ''s1'' = Inr ''final.mp4''"
    by (simp_all add: stages_ok_def)
  from status_progress_pairs [OF prod.collapse [symmetric],
      of stages_bad_video "''https://github.com/a/b''" "''s1''" Map.empty]
  have "observed ''s1'' (fst (process_repository stages_bad_video ''https://github.com/a/b'' ''s1''
       Map.empty))
     = [(''starting'', 0), (''analyzing'', 10), (''analyzing'', 30), (''analyzing'', 50),
        (''analyzing'', 70), (''error'', 70)] \<and>
   map_option error (get_status (last (fst (process_repository stages_bad_video
       ''https://github.com/a/b'' ''s1'' Map.empty))) ''s1'')
     = Some (Some ''Could not generate video'')"
    using b by simp
  moreover
  from status_progress_pairs [OF prod.collapse [symmetric],
      of stages_ok "''https://github.com/a/b''" "''s1''" Map.empty]
  have "observed ''s1'' (fst (process_repository stages_ok ''https://github.com/a/b'' ''s1''
       Map.empty))
     = [(''starting'', 0), (''analyzing'', 10), (''analyzing'', 30), (''analyzing'', 50),
        (''analyzing'', 70), (''analyzing'', 90), (''completed'', 100)] \<and>
   map_option result_file (get_status (last (fst (process_repository stages_ok
       ''https://github.com/a/b'' ''s1'' Map.empty))) ''s1'')
     = Some (Some ''final.mp4'')"
    using k by simp
  ultimately show ?thesis by blast
qed

text \<open>
  C6: for every accepted source reference (the run \<open>process_repository\<close> starts), the
  progress values a poller reads, in the order of its requests, never decrease; no
  exception leaves the worker; and the last entry is either \<open>completed\<close> with progress
  100 or the failure entry (status \<open>error\<close> in the code) with a progress below 100.
\<close>

theorem progress_monotone:
  assumes "process_repository S url sid reg = (tr, esc)"
    and "sorted idxs" and "\<forall>i\<in>set idxs. i < length tr"
  shows "sorted (map snd (polls sid tr idxs)) \<and> esc = None \<and>
     (last (observed sid tr) = (''completed'', 100) \<or>
      (fst (last (observed sid tr)) = ''error'' \<and> snd (last (observed sid tr)) < 100))"
proof -
  have s: "sorted (map snd (observed sid tr))"
    using observed_run_sorted [OF assms(1)] by simp
  have "sorted (map (\<lambda>i. map snd (observed sid tr) ! i) idxs)"
    using s assms(2,3) by (intro sorted_map_nth) (simp_all add: length_observed)
  then have "sorted (map snd (polls sid tr idxs))"
    using assms(3) by (simp add: map_snd_polls)
  then show ?thesis
    using observed_run [OF assms(1)] observed_run_sorted [OF assms(1)] by simp
qed

theorem progress_monotone_witness:
  "sorted (map snd (polls ''s1''
      (fst (process_repository stages_bad_video ''https://github.com/a/b'' ''s1'' Map.empty))
      [0, 2, 2, 5])) \<and>
   snd (process_repository stages_bad_video ''https://github.com/a/b'' ''s1'' Map.empty) = None \<and>
   last (observed ''s1''
      (fst (process_repository stages_bad_video ''https://github.com/a/b'' ''s1'' Map.empty)))
     = (''error'', 70)"
proof -
  let ?r = "process_repository stages_bad_video ''https://github.com/a/b'' ''s1'' Map.empty"
  have l: "length (fst ?r) = 6"
    using arg_cong [OF run_bad, of length] by (simp add: length_observed)
  have "\<forall>i\<in>set [0, 2, 2, 5::nat]. i < length (fst ?r)" by (simp add: l)
  from progress_monotone [OF prod.collapse [symmetric] _ this]
  show ?thesis by (simp add: run_bad)
qed

section \<open>Verified properties: text generation\<close>

text \<open>
  C2 as stated fails: \<open>generate_text\<close> is not a cascade over the providers. With
  credentials for Groq and OpenAI, a failing Groq call and an OpenAI call that would
  succeed, it returns the local fallback text and never invokes OpenAI, where the
  cascade of the specification returns OpenAI's text.
\<close>

theorem cascade_counterexample:
  "generate_text llm_two_keys (determine_service llm_two_keys) ''Write a video script'' 800
     = (''Generated content based on repository analysis.'', [''groq'', ''local'']) \<and>
   spec_cascade llm_two_keys provider_order ''Write a video script'' 800
     = (''Narration from the provider.'', [''groq'', ''openai''])"
  by (simp add: generate_text_def generate_text_try_def determine_service_def truthy_def
      llm_two_keys_def generate_with_local_def provider_order_def available_def)

text \<open>
  C2 (amended): the processor selects one provider when it is built, the first in the
  order groq, openai, anthropic, together, huggingface whose credential is set (the
  providers before it are skipped without a call), and \<open>local\<close> when none is set.
  \<open>generate_text\<close> invokes only the selected provider: if it succeeds, its result is
  returned and nothing else is invoked; if it fails, the local generation is invoked
  next and its result returned, and no later provider is tried.
\<close>

theorem generate_text_single_provider:
  "determine_service E =
     (case filter (available E) provider_order of [] \<Rightarrow> ''local'' | p # ps \<Rightarrow> p) \<and>
   (\<forall>p ps generated. filter (available E) provider_order = p # ps \<and>
       provider_call E p prompt n = Inr generated \<longrightarrow>
       generate_text E (determine_service E) prompt n = (generated, [p])) \<and>
   (\<forall>p ps e. filter (available E) provider_order = p # ps \<and>
       provider_call E p prompt n = Inl e \<longrightarrow>
       generate_text E (determine_service E) prompt n
         = (generate_with_local E prompt n, [p, ''local''])) \<and>
   (filter (available E) provider_order = [] \<longrightarrow>
       generate_text E (determine_service E) prompt n
         = (generate_with_local E prompt n, [''local'']))"
  by (auto simp: determine_service_def provider_order_def available_def generate_text_def
      generate_text_try_def split: if_splits)

lemma llm_two_keys_available:
  "filter (available llm_two_keys) provider_order = [''groq'', ''openai'']"
  by (simp add: provider_order_def available_def llm_two_keys_def truthy_def)

theorem generate_text_single_provider_witness:
  "determine_service llm_two_keys = ''groq'' \<and>
   generate_text llm_two_keys (determine_service llm_two_keys) ''p'' 800
     = (generate_with_local llm_two_keys ''p'' 800, [''groq'', ''local'']) \<and>
   generate_text (llm_two_keys\<lparr>groq_key := Some []\<rparr>)
       (determine_service (llm_two_keys\<lparr>groq_key := Some []\<rparr>)) ''p'' 800
     = (''Narration from the provider.'', [''openai''])"
proof -
  have a: "filter (available (llm_two_keys\<lparr>groq_key := Some []\<rparr>)) provider_order = [''openai'']"
    by (simp add: provider_order_def available_def llm_two_keys_def truthy_def)
  have c1: "provider_call llm_two_keys ''groq'' ''p'' 800
      = Inl (Raised PlainException ''Groq API error: 503'')"
    by (simp add: llm_two_keys_def)
  have c2: "provider_call (llm_two_keys\<lparr>groq_key := Some []\<rparr>) ''openai'' ''p'' 800
      = Inr ''Narration from the provider.''"
    by (simp add: llm_two_keys_def)
  from generate_text_single_provider [of llm_two_keys "''p''" 800]
  have "determine_service llm_two_keys = ''groq'' \<and>
    generate_text llm_two_keys (determine_service llm_two_keys) ''p'' 800
     = (generate_with_local llm_two_keys ''p'' 800, [''groq'', ''local''])"
    using c1 by (auto simp add: llm_two_keys_available)
  moreover from generate_text_single_provider [of "llm_two_keys\<lparr>groq_key := Some []\<rparr>" "''p''" 800]
  have "generate_text (llm_two_keys\<lparr>groq_key := Some []\<rparr>)
       (determine_service (llm_two_keys\<lparr>groq_key := Some []\<rparr>)) ''p'' 800
     = (''Narration from the provider.'', [''openai''])"
    using c2 by (auto simp add: a)
  ultimately show ?thesis by blast
qed

end
